theory Spec2Isabelle
  imports Main "HOL-Library.Word"
begin

section \<open>Data model\<close>

text \<open>
  Byte strings are lists of 8-bit words. An offset is a 16-byte identifier compared
  bytewise, that is, as a big-endian number; the model keeps that number. A
  \<^verbatim>\<open>time.Time\<close> is an instant in nanoseconds on the integer line (its range is far
  wider than the 64-bit range of a duration); a \<^verbatim>\<open>time.Duration\<close> is a signed 64-bit
  count of nanoseconds, so its arithmetic wraps.
\<close>

type_synonym bytes = "8 word list"
type_synonym offset = nat
type_synonym time = int
type_synonym Duration = "64 word"

text \<open>
  \<^verbatim>\<open>sgproto.MarkKind\<close> is a protobuf enumeration, i.e. an \<^verbatim>\<open>int32\<close> with five
  named values. \<open>Unrecognized k\<close> stands for any other wire value \<open>k\<close>.
\<close>

datatype MarkKind =
    Unknown
  | NotAcknowledged
  | Consumed
  | Acknowledged
  | Commited
  | Unrecognized int

record MarkState =
  Kind :: MarkKind
  DeliveryCount :: "32 word"

text \<open>
  The value of a message is a byte string. The protobuf encoding of a \<open>MarkState\<close> is
  produced by generated code outside the repository, so it is kept symbolic:
  \<open>Marshal s\<close> is the byte string \<^verbatim>\<open>proto.Marshal(&s)\<close> returns, \<open>Raw b\<close> is a byte
  string that \<^verbatim>\<open>proto.Unmarshal\<close> rejects as a \<open>MarkState\<close>.
\<close>

datatype payload = Raw bytes | Marshal MarkState

fun Unmarshal :: "payload \<Rightarrow> MarkState option" where
  "Unmarshal (Raw b) = None"
| "Unmarshal (Marshal s) = Some s"

record message =
  Offset :: offset
  Key :: bytes
  Value :: payload
  ClusteringKey :: bytes
  Channel :: string
  ProducedAt :: time

section \<open>The redelivery test (\<^verbatim>\<open>ConsumerGroup.shouldRedeliver\<close>)\<close>

definition RedeliveryTimeout :: Duration where
  "RedeliveryTimeout = 10 * 1000000000"

definition MaxRedeliveryCount :: int where
  "MaxRedeliveryCount = 5"

text \<open>\<^verbatim>\<open>Time.Add\<close> and \<^verbatim>\<open>Time.Before\<close>: the duration is read as a signed number.\<close>

definition Add :: "time \<Rightarrow> Duration \<Rightarrow> time" where
  "Add t d = t + sint d"

definition Before :: "time \<Rightarrow> time \<Rightarrow> bool" where
  "Before t u = (t < u)"

text \<open>
  The lines \<^verbatim>\<open>dur := RedeliveryTimeout; if state.DeliveryCount > 0 { dur *=
  time.Duration(state.DeliveryCount) }\<close>. The conversion of the \<^verbatim>\<open>uint32\<close> count to a
  duration keeps its value; the product is a 64-bit product.
\<close>

definition inflight_dur :: "MarkState \<Rightarrow> Duration" where
  "inflight_dur state =
     (if DeliveryCount state > 0 then RedeliveryTimeout * ucast (DeliveryCount state)
      else RedeliveryTimeout)"

text \<open>The first argument is the value of \<^verbatim>\<open>time.Now().UTC()\<close>.\<close>

definition shouldRedeliver :: "time \<Rightarrow> message \<Rightarrow> MarkState \<Rightarrow> bool" where
  "shouldRedeliver now m state =
     (case Kind state of
        NotAcknowledged \<Rightarrow> True
      | Consumed \<Rightarrow> Before (Add (ProducedAt m) (inflight_dur state)) now
      | Unknown \<Rightarrow> Before (Add (ProducedAt m) (inflight_dur state)) now
      | Acknowledged \<Rightarrow> False
      | Commited \<Rightarrow> False
      | Unrecognized k \<Rightarrow> False)"

section \<open>Merge operators of the two storage backends\<close>

text \<open>
  \<^verbatim>\<open>storage.MergeOperator.MergeFunc\<close> maps the existing value and an operand to a new
  value and an \<^verbatim>\<open>ok\<close> flag.
\<close>

type_synonym MergeFunc = "bytes \<Rightarrow> bytes \<Rightarrow> bytes \<times> bool"

text \<open>
  The closure \<^verbatim>\<open>fn\<close> that \<^verbatim>\<open>badger.NewStorage\<close> hands to
  \<^verbatim>\<open>db.GetMergeOperator\<close>.
\<close>

definition badger_fn :: "MergeFunc \<Rightarrow> bytes \<Rightarrow> bytes \<Rightarrow> bytes" where
  "badger_fn mergeFunc existing val =
     (case mergeFunc existing val of
        (newValue, ok) \<Rightarrow> if \<not> ok then existing else newValue)"

text \<open>
  The badger library folds the registered function over the operands added to the key;
  the fold is taken in the order in which \<open>FullMerge\<close> below walks its operands.
\<close>

definition badger_merge :: "MergeFunc \<Rightarrow> bytes \<Rightarrow> bytes list \<Rightarrow> bytes" where
  "badger_merge mergeFunc existing operands = foldl (badger_fn mergeFunc) existing operands"

text \<open>
  \<^verbatim>\<open>mergeOperator.FullMerge\<close> of the rocksdb backend; \<open>None\<close> is the result
  \<^verbatim>\<open>(nil, false)\<close>, \<open>Some v\<close> is \<^verbatim>\<open>(v, true)\<close>.
\<close>

fun FullMerge :: "MergeFunc \<Rightarrow> bytes \<Rightarrow> bytes \<Rightarrow> bytes list \<Rightarrow> bytes option" where
  "FullMerge mergeFunc key existingValue [] = Some existingValue"
| "FullMerge mergeFunc key existingValue (operand # operands) =
     (case mergeFunc existingValue operand of
        (v, ok) \<Rightarrow> if \<not> ok then None else FullMerge mergeFunc key v operands)"

section \<open>Requests, errors and the calls a consumer group makes\<close>

text \<open>
  Error values. The first four are made by package \<^verbatim>\<open>broker\<close> itself.
  \<open>StatusNotFound\<close> is a gRPC status error with code \<^verbatim>\<open>NotFound\<close>; \<open>ErrExternal\<close> is
  any error value made outside the package (storage, transport, decoding), identified by
  its text; \<open>Panic\<close> is a run-time panic.
\<close>

datatype error =
    ErrNoMessageToProduce
  | ErrTopicNotFound
  | ErrNoLeaderFound
  | ErrUnknownPartition string
  | StatusNotFound
  | ErrExternal string
  | Panic string

record ProduceMessageRequest =
  Topic :: string
  Partition :: string
  Messages :: "message list"

record MarkRequest =
  mr_Topic :: string
  mr_Partition :: string
  mr_Channel :: string
  mr_ConsumerGroup :: string
  mr_Offsets :: "offset list"
  mr_State :: "MarkState option"

text \<open>
  What the recovery scan does to the outside, in program order: a send on the internal
  channel, and calls of \<^verbatim>\<open>Broker.Commit\<close>, \<^verbatim>\<open>Broker.Mark\<close> and \<^verbatim>\<open>Broker.Produce\<close>.
  \<open>GoCommit\<close> is the statement \<^verbatim>\<open>go commit(lastMessage.Offset)\<close>; it carries the request
  as of the moment the goroutine is started.
\<close>

datatype effect =
    Send message
  | CommitCall MarkRequest
  | GoCommit MarkRequest
  | MarkCall MarkRequest
  | ProduceCall ProduceMessageRequest

text \<open>
  Modelled from the spec: the constants \<^verbatim>\<open>ConsumerOffsetTopicName\<close> and
  \<^verbatim>\<open>DeathLetterChannel\<close> are declared outside the files at hand. The internal topic is
  \<^verbatim>\<open>__consumer_offsets\<close>, the dead-letter channel is the literal string
  \<^verbatim>\<open>DeathLetter\<close>.
\<close>

definition ConsumerOffsetTopicName :: string where
  "ConsumerOffsetTopicName = ''__consumer_offsets''"

definition DeathLetterChannel :: string where
  "DeathLetterChannel = ''DeathLetter''"

text \<open>
  What the broker answers to the scan: the current time, the stored mark message of an
  offset (the pair \<^verbatim>\<open>(markedMsg, err)\<close> of \<^verbatim>\<open>GetMarkStateMessage\<close>), the partition
  of the internal topic chosen for a key, the clustering key of an offset and a kind, and
  the error, if any, with which a \<^verbatim>\<open>Mark\<close> or \<^verbatim>\<open>Produce\<close> call returns.
\<close>

record broker_env =
  Now :: time
  GetMarkStateMessage :: "offset \<Rightarrow> message option \<times> error option"
  ChoosePartitionForKey :: "bytes \<Rightarrow> string"
  generateClusterKey :: "offset \<Rightarrow> MarkKind \<Rightarrow> bytes"
  Mark_err :: "MarkRequest \<Rightarrow> error option"
  Produce_err :: "ProduceMessageRequest \<Rightarrow> error option"

section \<open>Consumer groups: receivers and registration\<close>

text \<open>A channel is identified by the number under which \<^verbatim>\<open>make\<close> created it.\<close>

record receiver =
  rname :: string
  msgCh :: nat
  doneCh :: nat

text \<open>
  The struct \<^verbatim>\<open>ConsumerGroup\<close>. Two components are bookkeeping of the model:
  \<open>chans\<close> counts the channels made so far, \<open>loops\<close> counts the executions of
  \<^verbatim>\<open>go c.consumeLoop()\<close>.
\<close>

record ConsumerGroup =
  cg_topic :: string
  cg_partition :: string
  cg_channel :: string
  cg_name :: string
  receivers :: "receiver list"
  chans :: nat
  loops :: nat

fun getReceiver :: "string \<Rightarrow> receiver list \<Rightarrow> receiver option" where
  "getReceiver consumerName [] = None"
| "getReceiver consumerName (r # rs) =
     (if rname r = consumerName then Some r else getReceiver consumerName rs)"

definition register :: "string \<Rightarrow> ConsumerGroup \<Rightarrow> receiver \<times> ConsumerGroup" where
  "register consumerName c =
     (case getReceiver consumerName (receivers c) of
        Some r \<Rightarrow> (r, c)
      | None \<Rightarrow>
          let r = \<lparr>rname = consumerName, msgCh = chans c, doneCh = chans c + 1\<rparr>;
              c1 = c\<lparr>receivers := receivers c @ [r], chans := chans c + 2\<rparr>
          in if length (receivers c1) = 1 then (r, c1\<lparr>loops := loops c1 + 1\<rparr>)
             else (r, c1))"

text \<open>\<^verbatim>\<open>Consume\<close> returns the two channels of the receiver and a nil error.\<close>

definition Consume :: "string \<Rightarrow> ConsumerGroup \<Rightarrow> (nat \<times> nat \<times> error option) \<times> ConsumerGroup" where
  "Consume consumerName c =
     (case register consumerName c of (r, c') \<Rightarrow> ((msgCh r, doneCh r, None), c'))"

text \<open>Further registrations, one after the other, under the given names.\<close>

definition register_all :: "string list \<Rightarrow> ConsumerGroup \<Rightarrow> ConsumerGroup" where
  "register_all ns c = fold (\<lambda>n c. snd (register n c)) ns c"

text \<open>
  \<^verbatim>\<open>removeConsumer\<close> cuts the first receiver of that name out of the list; \<open>None\<close> is
  the result \<^verbatim>\<open>false\<close>, \<open>Some rs\<close> is \<^verbatim>\<open>true\<close> with the new list.
\<close>

fun removeConsumer :: "string \<Rightarrow> receiver list \<Rightarrow> receiver list option" where
  "removeConsumer n [] = None"
| "removeConsumer n (r # rs) =
     (if rname r = n then Some rs else map_option ((#) r) (removeConsumer n rs))"

section \<open>The recovery scan of \<^verbatim>\<open>consumeLoop\<close>\<close>

record scan_state =
  lastMessage :: "message option"
  committed :: bool
  scan_i :: nat

text \<open>The request the closure \<^verbatim>\<open>commit\<close> sends: the offset is that of \<^verbatim>\<open>lastMessage\<close>.\<close>

definition commit_request :: "ConsumerGroup \<Rightarrow> message \<Rightarrow> MarkRequest" where
  "commit_request c lm =
     \<lparr>mr_Topic = cg_topic c, mr_Partition = cg_partition c, mr_Channel = cg_channel c,
      mr_ConsumerGroup = cg_name c, mr_Offsets = [Offset lm], mr_State = None\<rparr>"

text \<open>
  The state after the lookup: the zero value when no mark message came back, else what
  the value of the mark message decodes to (\<open>None\<close> when decoding fails).
\<close>

definition decode_state :: "message option \<Rightarrow> MarkState option" where
  "decode_state markedMsg =
     (case markedMsg of
        None \<Rightarrow> Some \<lparr>Kind = Unknown, DeliveryCount = 0\<rparr>
      | Some mm \<Rightarrow> Unmarshal (Value mm))"

text \<open>The block under the comment \<^verbatim>\<open>advance commit offset\<close>.\<close>

definition advance_commit ::
  "ConsumerGroup \<Rightarrow> offset \<Rightarrow> scan_state \<Rightarrow> MarkState \<Rightarrow> scan_state \<times> effect list" where
  "advance_commit c lastCommited st state =
     (case lastMessage st of
        None \<Rightarrow> (st, [])
      | Some lm \<Rightarrow>
          if committed st then (st, [])
          else if Kind state \<noteq> Acknowledged then
            (st\<lparr>committed := True\<rparr>,
             if Offset lm \<noteq> lastCommited then [CommitCall (commit_request c lm)] else [])
          else if scan_i st mod 10000 = 0 then (st, [GoCommit (commit_request c lm)])
          else (st, []))"

text \<open>
  The lines \<^verbatim>\<open>state.DeliveryCount++\<close> and \<^verbatim>\<open>if int(state.DeliveryCount) >=
  MaxRedeliveryCount { state.Kind = Acknowledged }\<close>; the count is a \<^verbatim>\<open>uint32\<close>.
\<close>

definition bump_state :: "MarkState \<Rightarrow> MarkState" where
  "bump_state state =
     (let s = state\<lparr>DeliveryCount := DeliveryCount state + 1\<rparr>
      in if uint (DeliveryCount s) \<ge> MaxRedeliveryCount then s\<lparr>Kind := Acknowledged\<rparr> else s)"

text \<open>The first error of a list of call results, as \<^verbatim>\<open>errgroup.Group.Wait\<close> returns it.\<close>

fun first_error :: "error option list \<Rightarrow> error option" where
  "first_error [] = None"
| "first_error (None # es) = first_error es"
| "first_error (Some e # es) = Some e"

text \<open>
  The update after the send on the internal channel. For a state of kind \<open>Unknown\<close> one
  \<^verbatim>\<open>Mark\<close> call; otherwise the bumped state is written into the mark message, and two
  \<^verbatim>\<open>Produce\<close> calls are started: the mark message to the internal topic, and the
  message itself, re-tagged with the dead-letter channel, to the topic and partition of
  the group. Both calls are made whatever the count is. The two run concurrently; the
  model lists the mark first. The message is re-tagged in place, so \<^verbatim>\<open>lastMessage\<close>,
  which points to it, sees the new channel. Encoding the two fields of a state does not
  fail. The comparison with the maximum converts the count to a 64-bit \<^verbatim>\<open>int\<close>, which
  keeps its value.
\<close>

definition update_mark ::
  "broker_env \<Rightarrow> ConsumerGroup \<Rightarrow> scan_state \<Rightarrow> message \<Rightarrow> message option \<Rightarrow> MarkState
     \<Rightarrow> scan_state \<times> effect list \<times> error option" where
  "update_mark env c st m markedMsg state =
     (if Kind state = Unknown then
        let req = \<lparr>mr_Topic = cg_topic c, mr_Partition = cg_partition c,
                   mr_Channel = cg_channel c, mr_ConsumerGroup = cg_name c,
                   mr_Offsets = [Offset m],
                   mr_State = Some \<lparr>Kind = Consumed, DeliveryCount = 1\<rparr>\<rparr>
        in (st, [MarkCall req], Mark_err env req)
      else
        case markedMsg of
          None \<Rightarrow> (st, [], Some (Panic ''nil pointer dereference''))
        | Some mm \<Rightarrow>
            let state' = bump_state state;
                mm' = mm\<lparr>Value := Marshal state',
                         ClusteringKey := generateClusterKey env (Offset m) (Kind state')\<rparr>;
                req1 = \<lparr>Topic = ConsumerOffsetTopicName,
                        Partition = ChoosePartitionForKey env (Key mm),
                        Messages = [mm']\<rparr>;
                m' = m\<lparr>Channel := DeathLetterChannel\<rparr>;
                req2 = \<lparr>Topic = cg_topic c, Partition = cg_partition c, Messages = [m']\<rparr>
            in (st\<lparr>lastMessage := Some m'\<rparr>,
                [ProduceCall req1, ProduceCall req2],
                first_error [Produce_err env req1, Produce_err env req2]))"

text \<open>
  The callback handed to \<^verbatim>\<open>FetchRangeFn\<close> by the recovery scan: the new scan state, the
  effects in order, and the error returned (\<open>None\<close> is \<^verbatim>\<open>nil\<close>).
\<close>

definition recover_callback ::
  "broker_env \<Rightarrow> ConsumerGroup \<Rightarrow> offset \<Rightarrow> scan_state \<Rightarrow> message
     \<Rightarrow> scan_state \<times> effect list \<times> error option" where
  "recover_callback env c lastCommited st m =
     (if Offset m = lastCommited then (st\<lparr>lastMessage := Some m\<rparr>, [], None)
      else
        let st1 = st\<lparr>scan_i := scan_i st + 1\<rparr> in
        case GetMarkStateMessage env (Offset m) of
          (markedMsg, err) \<Rightarrow>
            if err \<noteq> None \<and> err \<noteq> Some StatusNotFound then (st1, [], err)
            else
              case decode_state markedMsg of
                None \<Rightarrow> (st1, [], Some (ErrExternal ''proto: cannot parse''))
              | Some state \<Rightarrow>
                  case advance_commit c lastCommited st1 state of
                    (st2, commits) \<Rightarrow>
                      let st3 = st2\<lparr>lastMessage := Some m\<rparr> in
                      if shouldRedeliver (Now env) m state then
                        case update_mark env c st3 m markedMsg state of
                          (st4, effs, e) \<Rightarrow> (st4, commits @ [Send m] @ effs, e)
                      else (st3, commits, None))"

text \<open>
  \<^verbatim>\<open>FetchRangeFn\<close> calls the callback on the messages of the range in offset order and
  stops at the first error.
\<close>

fun scan_messages ::
  "broker_env \<Rightarrow> ConsumerGroup \<Rightarrow> offset \<Rightarrow> scan_state \<Rightarrow> message list
     \<Rightarrow> scan_state \<times> effect list \<times> error option" where
  "scan_messages env c lastCommited st [] = (st, [], None)"
| "scan_messages env c lastCommited st (m # ms) =
     (case recover_callback env c lastCommited st m of
        (st', effs, Some e) \<Rightarrow> (st', effs, Some e)
      | (st', effs, None) \<Rightarrow>
          (case scan_messages env c lastCommited st' ms of
             (st'', effs', e) \<Rightarrow> (st'', effs @ effs', e)))"

text \<open>The whole recovery goroutine, on the messages the range fetch yields.\<close>

definition recovery_scan ::
  "broker_env \<Rightarrow> ConsumerGroup \<Rightarrow> offset \<Rightarrow> message list \<Rightarrow> effect list \<times> error option" where
  "recovery_scan env c lastCommited msgs =
     (case scan_messages env c lastCommited
             \<lparr>lastMessage = None, committed = False, scan_i = 0\<rparr> msgs of
        (st, effs, Some e) \<Rightarrow> (effs, Some e)
      | (st, effs, None) \<Rightarrow>
          (case lastMessage st of
             Some lm \<Rightarrow>
               if \<not> committed st then (effs @ [CommitCall (commit_request c lm)], None)
               else (effs, None)
           | None \<Rightarrow> (effs, None)))"

text \<open>
  The mark states an effect list writes: the state of a \<^verbatim>\<open>Mark\<close> call, and what the
  values of the messages produced to the internal topic decode to.
\<close>

fun written_states :: "effect list \<Rightarrow> MarkState list" where
  "written_states [] = []"
| "written_states (MarkCall req # es) =
     (case mr_State req of Some s \<Rightarrow> s # written_states es | None \<Rightarrow> written_states es)"
| "written_states (ProduceCall req # es) =
     (if Topic req = ConsumerOffsetTopicName
      then List.map_filter (\<lambda>mm. Unmarshal (Value mm)) (Messages req) @ written_states es
      else written_states es)"
| "written_states (e # es) = written_states es"

text \<open>The messages an effect list produces to a channel of a topic and partition.\<close>

fun produced_on :: "string \<Rightarrow> string \<Rightarrow> string \<Rightarrow> effect list \<Rightarrow> message list" where
  "produced_on t p ch [] = []"
| "produced_on t p ch (ProduceCall req # es) =
     (if Topic req = t \<and> Partition req = p
      then filter (\<lambda>m. Channel m = ch) (Messages req) @ produced_on t p ch es
      else produced_on t p ch es)"
| "produced_on t p ch (e # es) = produced_on t p ch es"

section \<open>The dispatch loop of \<^verbatim>\<open>consumeLoop\<close>\<close>

text \<open>
  One pass through the code under the label \<^verbatim>\<open>selectreceiver\<close> ends in one of four
  ways: the message was sent to a receiver; the loop was left by \<^verbatim>\<open>break loop\<close>; the
  done channel fired and \<^verbatim>\<open>removeConsumer\<close> returned false, so control leaves the
  \<^verbatim>\<open>select\<close> without a send; or the index expression panics on an empty list. Each
  result carries the values of \<^verbatim>\<open>i\<close> and of \<^verbatim>\<open>c.receivers\<close> at that point.
\<close>

datatype select_result =
    Sent nat "receiver list" receiver
  | BreakLoop nat "receiver list"
  | Fallthrough nat "receiver list"
  | SelectPanic

lemma removeConsumer_length:
  "removeConsumer n rs = Some rs' \<Longrightarrow> length rs = Suc (length rs')"
  by (induction rs arbitrary: rs') (auto split: if_splits)

text \<open>
  The code from the label \<^verbatim>\<open>selectreceiver\<close> to the end of the \<^verbatim>\<open>select\<close>. The
  list \<open>done\<close> names the receivers whose done channel fires first when they are
  selected for this message; for every other receiver the send goes through. The label
  stands before \<^verbatim>\<open>i++\<close>, so \<^verbatim>\<open>goto selectreceiver\<close> passes the increment again. The
  counter is a Go \<^verbatim>\<open>int\<close> that starts at 0 and grows by one per pass; it is modelled by
  a natural number.
\<close>

function selectreceiver :: "string list \<Rightarrow> nat \<Rightarrow> receiver list \<Rightarrow> select_result" where
  "selectreceiver done i rs =
     (let i' = i + 1 in
      if length rs = 0 then SelectPanic
      else
        let r = rs ! (i' mod length rs) in
        if rname r \<in> set done then
          (case removeConsumer (rname r) rs of
             Some rs' \<Rightarrow>
               if length rs' = 0 then BreakLoop i' rs' else selectreceiver done i' rs'
           | None \<Rightarrow> Fallthrough i' rs)
        else Sent i' rs r)"
  by pat_completeness auto
termination
  by (relation "measure (\<lambda>(done, i, rs). length rs)") (auto dest: removeConsumer_length)

declare selectreceiver.simps [simp del]

text \<open>
  The same passage in the earlier version of the loop, where the label stands after the
  acknowledgement test and \<^verbatim>\<open>i++\<close> is the last statement of the loop body: a retry
  selects with the same \<^verbatim>\<open>i\<close>.
\<close>

function selectreceiver_old :: "string list \<Rightarrow> nat \<Rightarrow> receiver list \<Rightarrow> select_result" where
  "selectreceiver_old done i rs =
     (if length rs = 0 then SelectPanic
      else
        let r = rs ! (i mod length rs) in
        if rname r \<in> set done then
          (case removeConsumer (rname r) rs of
             Some rs' \<Rightarrow>
               if length rs' = 0 then BreakLoop i rs' else selectreceiver_old done i rs'
           | None \<Rightarrow> Fallthrough i rs)
        else Sent i rs r)"
  by pat_completeness auto
termination
  by (relation "measure (\<lambda>(done, i, rs). length rs)") (auto dest: removeConsumer_length)

declare selectreceiver_old.simps [simp del]

text \<open>
  The variables of the dispatch loop: \<^verbatim>\<open>i\<close>, the receiver list, the loop variable
  \<^verbatim>\<open>m\<close> (declared outside the loop, \<open>None\<close> is \<^verbatim>\<open>nil\<close>), the sends made so far as
  pairs of receiver name and message, and whether the loop panicked.
\<close>

record dispatch_state =
  d_i :: nat
  d_receivers :: "receiver list"
  d_m :: "message option"
  d_sent :: "(string \<times> message) list"
  d_panic :: bool

text \<open>
  The loop \<^verbatim>\<open>for m = range msgCh\<close> on the messages that arrive on the internal channel
  until it is closed, each with the list of receivers whose done channel fires for it.
\<close>

fun dispatch :: "(message \<times> string list) list \<Rightarrow> dispatch_state \<Rightarrow> dispatch_state" where
  "dispatch [] st = st"
| "dispatch ((m, done) # rest) st =
     (case selectreceiver done (d_i st) (d_receivers st) of
        Sent i rs r \<Rightarrow>
          dispatch rest (st\<lparr>d_i := i, d_receivers := rs, d_m := Some m,
                              d_sent := d_sent st @ [(rname r, m)]\<rparr>)
      | BreakLoop i rs \<Rightarrow> st\<lparr>d_i := i, d_receivers := rs, d_m := Some m\<rparr>
      | Fallthrough i rs \<Rightarrow>
          dispatch rest (st\<lparr>d_i := i, d_receivers := rs, d_m := Some m\<rparr>)
      | SelectPanic \<Rightarrow> st\<lparr>d_m := Some m, d_panic := True\<rparr>)"

text \<open>
  The statement after the loop: the offset handed to \<^verbatim>\<open>MarkConsumed\<close>, if any. After a
  panic the statement is not reached.
\<close>

definition mark_on_exit :: "offset \<Rightarrow> dispatch_state \<Rightarrow> offset option" where
  "mark_on_exit lastConsumed st =
     (if d_panic st then None
      else case d_m st of
        None \<Rightarrow> None
      | Some m \<Rightarrow> if Offset m \<noteq> lastConsumed then Some (Offset m) else None)"

definition dispatch_start :: "receiver list \<Rightarrow> dispatch_state" where
  "dispatch_start rs = \<lparr>d_i = 0, d_receivers = rs, d_m = None, d_sent = [], d_panic = False\<rparr>"

section \<open>The produce path (\<^verbatim>\<open>Broker.Produce\<close>)\<close>

text \<open>
  A partition with its log; \<open>fault\<close> is the error with which the storage refuses the
  next batch write, if it does. A topic is its list of partitions, a node its name.
  The broker knows its own name, its topics by name, and the leader of each partition:
  the lookups \<^verbatim>\<open>getTopic\<close> and \<^verbatim>\<open>getPartitionLeader\<close>, whose code is not among the
  files at hand, read these two tables and return nil for a missing entry.
\<close>

record Partition_t =
  Id_p :: string
  plog :: "message list"
  fault :: "string option"

record Topic_t =
  partitions :: "Partition_t list"

record Node =
  node_Name :: string

record Broker =
  b_Name :: string
  topics :: "string \<Rightarrow> Topic_t option"
  leaders :: "string \<Rightarrow> string \<Rightarrow> Node option"

definition getTopic :: "Broker \<Rightarrow> string \<Rightarrow> Topic_t option" where
  "getTopic b name = topics b name"

definition getPartitionLeader :: "Broker \<Rightarrow> string \<Rightarrow> string \<Rightarrow> Node option" where
  "getPartitionLeader b topic pid = leaders b topic pid"

text \<open>
  Modelled from the spec: \<^verbatim>\<open>Topic.GetPartition\<close> of package \<^verbatim>\<open>topic\<close> is not among
  the files at hand. It resolves a partition id to the partition of the topic, or to nil
  when the id is unknown; the model returns the place of the partition in the list, which
  stands for the pointer.
\<close>

fun GetPartition :: "Partition_t list \<Rightarrow> string \<Rightarrow> nat option" where
  "GetPartition [] pid = None"
| "GetPartition (p # ps) pid =
     (if Id_p p = pid then Some 0 else map_option Suc (GetPartition ps pid))"

text \<open>
  Modelled from the spec: \<^verbatim>\<open>Topic.ChooseRandomPartition\<close> of package \<^verbatim>\<open>topic\<close> is not
  among the files at hand. It chooses a partition uniformly at random; the random number
  is the argument \<open>rnd\<close>. A topic without partitions has none to choose.
\<close>

definition ChooseRandomPartition :: "nat \<Rightarrow> Partition_t list \<Rightarrow> nat option" where
  "ChooseRandomPartition rnd ps = (if ps = [] then None else Some (rnd mod length ps))"

text \<open>
  Modelled from the spec: \<^verbatim>\<open>Partition.BatchPutMessages\<close> of package \<^verbatim>\<open>topic\<close> is not
  among the files at hand. It assigns each message a fresh offset strictly greater than
  all prior ones and writes the batch atomically; on a storage error nothing is written.
  The messages are passed by pointer, so the caller sees the assigned offsets.
\<close>

definition next_offset :: "Partition_t \<Rightarrow> offset" where
  "next_offset p = Suc (fold max (map Offset (plog p)) 0)"

fun assign_offsets :: "offset \<Rightarrow> message list \<Rightarrow> message list" where
  "assign_offsets n [] = []"
| "assign_offsets n (m # ms) = m\<lparr>Offset := n\<rparr> # assign_offsets (Suc n) ms"

definition BatchPutMessages ::
  "Partition_t \<Rightarrow> message list \<Rightarrow> error + Partition_t \<times> message list" where
  "BatchPutMessages p msgs =
     (case fault p of
        Some e \<Rightarrow> Inl (ErrExternal e)
      | None \<Rightarrow>
          let ms = assign_offsets (next_offset p) msgs
          in Inr (p\<lparr>plog := plog p @ ms\<rparr>, ms))"

text \<open>
  The partition of a request: the one named, or a random one. A topic without
  partitions makes the random choice panic.
\<close>

definition resolve_partition :: "nat \<Rightarrow> Topic_t \<Rightarrow> ProduceMessageRequest \<Rightarrow> error + nat" where
  "resolve_partition rnd t req =
     (if Partition req \<noteq> [] then
        (case GetPartition (partitions t) (Partition req) of
           None \<Rightarrow> Inl (ErrUnknownPartition (Partition req))
         | Some k \<Rightarrow> Inr k)
      else
        (case ChooseRandomPartition rnd (partitions t) of
           None \<Rightarrow> Inl (Panic ''no partition to choose'')
         | Some k \<Rightarrow> Inr k))"

text \<open>
  The answer of a remote node is an offset list or an error of the transport; such an
  error is a value of its own, never one of the error variables of this package.
\<close>

definition remote_response :: "string + offset list \<Rightarrow> error + offset list" where
  "remote_response resp = (case resp of Inl s \<Rightarrow> Inl (ErrExternal s) | Inr offs \<Rightarrow> Inr offs)"

text \<open>
  \<^verbatim>\<open>Broker.Produce\<close>. \<open>forward\<close> is the remote call \<^verbatim>\<open>leader.Produce\<close>. The result
  is the response, the broker afterwards, and the remote calls made.
\<close>

definition Produce ::
  "(Node \<Rightarrow> ProduceMessageRequest \<Rightarrow> string + offset list) \<Rightarrow> nat \<Rightarrow> Broker
     \<Rightarrow> ProduceMessageRequest
     \<Rightarrow> (error + offset list) \<times> Broker \<times> (Node \<times> ProduceMessageRequest) list" where
  "Produce forward rnd b req =
     (if length (Messages req) = 0 then (Inl ErrNoMessageToProduce, b, [])
      else
        case getTopic b (Topic req) of
          None \<Rightarrow> (Inl ErrTopicNotFound, b, [])
        | Some t \<Rightarrow>
            (case resolve_partition rnd t req of
               Inl e \<Rightarrow> (Inl e, b, [])
             | Inr k \<Rightarrow>
                 let p = partitions t ! k in
                 (case getPartitionLeader b (Topic req) (Id_p p) of
                    None \<Rightarrow> (Inl ErrNoLeaderFound, b, [])
                  | Some leader \<Rightarrow>
                      if node_Name leader \<noteq> b_Name b then
                        (remote_response (forward leader req), b, [(leader, req)])
                      else
                        (case BatchPutMessages p (Messages req) of
                           Inl e \<Rightarrow> (Inl e, b, [])
                         | Inr (p', ms) \<Rightarrow>
                             (Inr (map Offset ms),
                              b\<lparr>topics := (topics b)
                                  (Topic req \<mapsto> t\<lparr>partitions := (partitions t)[k := p']\<rparr>)\<rparr>,
                              [])))))"

section \<open>The badger storage backend\<close>

text \<open>
  The store maps keys to values. A badger transaction buffers its writes; they reach the
  store when the transaction is committed, and \<^verbatim>\<open>Discard\<close> drops them. A write in a
  read-only transaction or with an empty key is refused.
\<close>

type_synonym store = "bytes \<Rightarrow> bytes option"

record Txn =
  txn_update :: bool
  txn_pending :: "(bytes \<times> bytes option) list"

definition NewTransaction :: "bool \<Rightarrow> Txn" where
  "NewTransaction update = \<lparr>txn_update = update, txn_pending = []\<rparr>"

definition txn_modify :: "Txn \<Rightarrow> bytes \<Rightarrow> bytes option \<Rightarrow> error + Txn" where
  "txn_modify txn key v =
     (if \<not> txn_update txn then Inl (ErrExternal ''No sets or deletes are allowed in a read-only transaction'')
      else if key = [] then Inl (ErrExternal ''Key cannot be empty'')
      else Inr (txn\<lparr>txn_pending := txn_pending txn @ [(key, v)]\<rparr>))"

definition txn_Set :: "Txn \<Rightarrow> bytes \<Rightarrow> bytes \<Rightarrow> error + Txn" where
  "txn_Set txn key v = txn_modify txn key (Some v)"

definition txn_Delete :: "Txn \<Rightarrow> bytes \<Rightarrow> error + Txn" where
  "txn_Delete txn key = txn_modify txn key None"

definition txn_Commit :: "store \<Rightarrow> Txn \<Rightarrow> store" where
  "txn_Commit db txn = foldl (\<lambda>d (k, v). d(k := v)) db (txn_pending txn)"

definition txn_Discard :: "store \<Rightarrow> Txn \<Rightarrow> store" where
  "txn_Discard db txn = db"

text \<open>\<^verbatim>\<open>Storage.Get\<close>: a missing key gives a nil value and no error.\<close>

definition Get :: "store \<Rightarrow> bytes \<Rightarrow> bytes option \<times> error option" where
  "Get db key = (db key, None)"

text \<open>
  \<^verbatim>\<open>Storage.BatchPut\<close> runs its sets inside \<^verbatim>\<open>db.Update\<close>, which commits the
  transaction when the function returns nil and discards it otherwise.
\<close>

fun set_entries :: "Txn \<Rightarrow> (bytes \<times> bytes) list \<Rightarrow> error + Txn" where
  "set_entries txn [] = Inr txn"
| "set_entries txn ((k, v) # es) =
     (case txn_Set txn k v of Inl e \<Rightarrow> Inl e | Inr txn' \<Rightarrow> set_entries txn' es)"

definition BatchPut :: "store \<Rightarrow> (bytes \<times> bytes) list \<Rightarrow> error option \<times> store" where
  "BatchPut db entries =
     (case set_entries (NewTransaction True) entries of
        Inl e \<Rightarrow> (Some e, txn_Discard db (NewTransaction True))
      | Inr txn \<Rightarrow> (None, txn_Commit db txn))"

text \<open>
  \<^verbatim>\<open>Storage.Delete\<close> opens a transaction, defers its \<^verbatim>\<open>Discard\<close>, and returns what
  \<^verbatim>\<open>txn.Delete\<close> returns. No commit is called.
\<close>

definition Delete :: "store \<Rightarrow> bytes \<Rightarrow> error option \<times> store" where
  "Delete db key =
     (let txn = NewTransaction True in
      case txn_Delete txn key of
        Inl e \<Rightarrow> (Some e, txn_Discard db txn)
      | Inr txn' \<Rightarrow> (None, txn_Discard db txn'))"

text \<open>\<^verbatim>\<open>Storage.BatchDelete\<close>: the same with a loop over the keys.\<close>

fun delete_keys :: "Txn \<Rightarrow> bytes list \<Rightarrow> error + Txn" where
  "delete_keys txn [] = Inr txn"
| "delete_keys txn (key # keys) =
     (case txn_Delete txn key of Inl e \<Rightarrow> Inl e | Inr txn' \<Rightarrow> delete_keys txn' keys)"

definition BatchDelete :: "store \<Rightarrow> bytes list \<Rightarrow> error option \<times> store" where
  "BatchDelete db keys =
     (let txn = NewTransaction True in
      case delete_keys txn keys of
        Inl e \<Rightarrow> (Some e, txn_Discard db txn)
      | Inr txn' \<Rightarrow> (None, txn_Discard db txn'))"

section \<open>Example data\<close>

definition example_group :: ConsumerGroup where
  "example_group = \<lparr>cg_topic = ''T'', cg_partition = ''P0'', cg_channel = ''main'',
     cg_name = ''g'', receivers = [], chans = 0, loops = 0\<rparr>"

definition example_message :: "offset \<Rightarrow> message" where
  "example_message off = \<lparr>Offset = off, Key = [], Value = Raw [104], ClusteringKey = [],
     Channel = ''main'', ProducedAt = 0\<rparr>"

text \<open>A stored mark message whose value decodes to the given state.\<close>

definition example_mark :: "MarkState \<Rightarrow> message" where
  "example_mark s = \<lparr>Offset = 3, Key = [1], Value = Marshal s, ClusteringKey = [],
     Channel = [], ProducedAt = 0\<rparr>"

text \<open>
  A broker that answers at time \<open>t\<close>, holds the given mark message for every offset
  (or none, with status \<^verbatim>\<open>NotFound\<close>), and whose calls all succeed.
\<close>

definition example_env :: "time \<Rightarrow> message option \<Rightarrow> broker_env" where
  "example_env t mm =
     \<lparr>Now = t,
      GetMarkStateMessage = (\<lambda>off. (mm, if mm = None then Some StatusNotFound else None)),
      ChoosePartitionForKey = (\<lambda>k. ''0''),
      generateClusterKey = (\<lambda>off k. []),
      Mark_err = (\<lambda>r. None),
      Produce_err = (\<lambda>r. None)\<rparr>"

definition scan_start :: scan_state where
  "scan_start = \<lparr>lastMessage = None, committed = False, scan_i = 0\<rparr>"

definition example_receiver :: "string \<Rightarrow> nat \<Rightarrow> receiver" where
  "example_receiver n k = \<lparr>rname = n, msgCh = k, doneCh = k + 1\<rparr>"

text \<open>
  A broker named \<open>n1\<close> with one topic \<open>T\<close> of one empty partition \<open>P0\<close>, led by the
  node of the given name, if any; the storage of the partition refuses writes with the
  given error, if any.
\<close>

definition example_broker :: "string option \<Rightarrow> string option \<Rightarrow> Broker" where
  "example_broker leader flt =
     \<lparr>b_Name = ''n1'',
      topics = [''T'' \<mapsto> \<lparr>partitions = [\<lparr>Id_p = ''P0'', plog = [], fault = flt\<rparr>]\<rparr>],
      leaders = (\<lambda>t p. if t = ''T'' \<and> p = ''P0''
                         then map_option (\<lambda>n. \<lparr>node_Name = n\<rparr>) leader else None)\<rparr>"

definition example_request :: "string \<Rightarrow> string \<Rightarrow> message list \<Rightarrow> ProduceMessageRequest" where
  "example_request t p ms = \<lparr>Topic = t, Partition = p, Messages = ms\<rparr>"

lemmas example_defs =
  example_group_def example_message_def example_mark_def example_env_def scan_start_def
  example_receiver_def example_broker_def example_request_def

section \<open>Properties of the redelivery test\<close>

lemma sint_RedeliveryTimeout: "sint RedeliveryTimeout = 10000000000"
  by (simp add: RedeliveryTimeout_def)

lemma sint_timeout_times_count:
  fixes c :: "32 word"
  assumes "unat c \<le> 922337203"
  shows "sint (RedeliveryTimeout * ucast c) = 10000000000 * uint c"
proof -
  have u: "uint c \<le> 922337203"
    using assms unfolding uint_nat by linarith
  have e: "RedeliveryTimeout * ucast c = (word_of_int (10000000000 * uint c) :: 64 word)"
  proof -
    have a: "RedeliveryTimeout = (word_of_int 10000000000 :: 64 word)"
      by (simp add: RedeliveryTimeout_def)
    have b: "(ucast c :: 64 word) = word_of_int (uint c)"
      by (rule ucast_eq)
    show ?thesis
      by (simp only: a b wi_hom_mult)
  qed
  have "sint (word_of_int (10000000000 * uint c) :: 64 word)
      = signed_take_bit 63 (10000000000 * uint c)"
    by (simp only: sint_sbintrunc') simp
  also have "\<dots> = 10000000000 * uint c"
  proof (rule signed_take_bit_int_eq_self)
    have "(0::int) \<le> 10000000000 * uint c"
      using uint_ge_0 [of c] by linarith
    moreover have "- (2 ^ 63) \<le> (0::int)"
      by simp
    ultimately show "- (2 ^ 63) \<le> 10000000000 * uint c"
      by (rule order_trans [rotated])
    have "10000000000 * uint c < 9223372036854775808"
      using u by linarith
    then show "10000000000 * uint c < 2 ^ 63"
      by simp
  qed
  finally show ?thesis using e by simp
qed

lemma sint_inflight_dur:
  assumes "unat (DeliveryCount s) \<le> 922337203"
  shows "sint (inflight_dur s) = 10000000000 * max 1 (uint (DeliveryCount s))"
proof (cases "DeliveryCount s = 0")
  case True
  then show ?thesis
    by (simp add: inflight_dur_def sint_RedeliveryTimeout)
next
  case False
  then have "0 < DeliveryCount s"
    by (simp add: word_greater_zero_iff)
  moreover have "1 \<le> uint (DeliveryCount s)"
    using False uint_ge_0 [of "DeliveryCount s"] uint_0_iff [of "DeliveryCount s"]
    by linarith
  ultimately show ?thesis
    using sint_timeout_times_count [OF assms] by (simp add: inflight_dur_def max_def)
qed

text \<open>
  Claim C4 (as amended). \<open>shouldRedeliver\<close> returns true for \<open>NotAcknowledged\<close>. For
  \<open>Consumed\<close> and \<open>Unknown\<close>, when the delivery count is at most 922337203 (the largest
  count whose product with the ten-second timeout fits a signed 64-bit duration), it
  returns true exactly when the production time plus the timeout times
  \<open>max 1 DeliveryCount\<close> is before the current time. It returns false for
  \<open>Acknowledged\<close> and \<open>Commited\<close>, and false for every unrecognized kind.
\<close>

theorem shouldRedeliver_cases:
  "(Kind s = NotAcknowledged \<longrightarrow> shouldRedeliver now m s)
   \<and> (unat (DeliveryCount s) \<le> 922337203 \<and> (Kind s = Consumed \<or> Kind s = Unknown) \<longrightarrow>
        shouldRedeliver now m s =
          (ProducedAt m + 10000000000 * max 1 (uint (DeliveryCount s)) < now))
   \<and> (Kind s = Acknowledged \<or> Kind s = Commited \<longrightarrow> \<not> shouldRedeliver now m s)
   \<and> (Kind s = Unrecognized k \<longrightarrow> \<not> shouldRedeliver now m s)"
proof (intro conjI impI)
  assume "unat (DeliveryCount s) \<le> 922337203 \<and> (Kind s = Consumed \<or> Kind s = Unknown)"
  then show "shouldRedeliver now m s =
          (ProducedAt m + 10000000000 * max 1 (uint (DeliveryCount s)) < now)"
    using sint_inflight_dur [of s]
    by (auto simp: shouldRedeliver_def Add_def Before_def)
qed (auto simp: shouldRedeliver_def)

text \<open>
  The theorem at one message produced at time 0, for each kind: a \<open>NotAcknowledged\<close>
  mark, a \<open>Consumed\<close> mark of count 2 just after and exactly at its deadline of twenty
  seconds, a fresh \<open>Unknown\<close> state after ten seconds, an \<open>Acknowledged\<close> mark and an
  unrecognized kind.
\<close>

theorem shouldRedeliver_cases_witness:
  "shouldRedeliver 5 \<lparr>Offset = 7, Key = [], Value = Raw [], ClusteringKey = [],
       Channel = ''c'', ProducedAt = 0\<rparr> \<lparr>Kind = NotAcknowledged, DeliveryCount = 2\<rparr>
   \<and> shouldRedeliver 20000000001 \<lparr>Offset = 7, Key = [], Value = Raw [], ClusteringKey = [],
       Channel = ''c'', ProducedAt = 0\<rparr> \<lparr>Kind = Consumed, DeliveryCount = 2\<rparr>
   \<and> \<not> shouldRedeliver 20000000000 \<lparr>Offset = 7, Key = [], Value = Raw [], ClusteringKey = [],
       Channel = ''c'', ProducedAt = 0\<rparr> \<lparr>Kind = Consumed, DeliveryCount = 2\<rparr>
   \<and> shouldRedeliver 10000000001 \<lparr>Offset = 7, Key = [], Value = Raw [], ClusteringKey = [],
       Channel = ''c'', ProducedAt = 0\<rparr> \<lparr>Kind = Unknown, DeliveryCount = 0\<rparr>
   \<and> \<not> shouldRedeliver 20000000001 \<lparr>Offset = 7, Key = [], Value = Raw [], ClusteringKey = [],
       Channel = ''c'', ProducedAt = 0\<rparr> \<lparr>Kind = Acknowledged, DeliveryCount = 2\<rparr>
   \<and> \<not> shouldRedeliver 20000000001 \<lparr>Offset = 7, Key = [], Value = Raw [], ClusteringKey = [],
       Channel = ''c'', ProducedAt = 0\<rparr> \<lparr>Kind = Unrecognized 9, DeliveryCount = 2\<rparr>"
  using
    shouldRedeliver_cases [of "\<lparr>Kind = NotAcknowledged, DeliveryCount = 2\<rparr>" 5
      "\<lparr>Offset = 7, Key = [], Value = Raw [], ClusteringKey = [], Channel = ''c'', ProducedAt = 0\<rparr>"]
    shouldRedeliver_cases [of "\<lparr>Kind = Consumed, DeliveryCount = 2\<rparr>" 20000000001
      "\<lparr>Offset = 7, Key = [], Value = Raw [], ClusteringKey = [], Channel = ''c'', ProducedAt = 0\<rparr>"]
    shouldRedeliver_cases [of "\<lparr>Kind = Consumed, DeliveryCount = 2\<rparr>" 20000000000
      "\<lparr>Offset = 7, Key = [], Value = Raw [], ClusteringKey = [], Channel = ''c'', ProducedAt = 0\<rparr>"]
    shouldRedeliver_cases [of "\<lparr>Kind = Unknown, DeliveryCount = 0\<rparr>" 10000000001
      "\<lparr>Offset = 7, Key = [], Value = Raw [], ClusteringKey = [], Channel = ''c'', ProducedAt = 0\<rparr>"]
    shouldRedeliver_cases [of "\<lparr>Kind = Acknowledged, DeliveryCount = 2\<rparr>" 20000000001
      "\<lparr>Offset = 7, Key = [], Value = Raw [], ClusteringKey = [], Channel = ''c'', ProducedAt = 0\<rparr>"]
    shouldRedeliver_cases [of "\<lparr>Kind = Unrecognized 9, DeliveryCount = 2\<rparr>" 20000000001
      "\<lparr>Offset = 7, Key = [], Value = Raw [], ClusteringKey = [], Channel = ''c'', ProducedAt = 0\<rparr>" 9]
  by simp

text \<open>
  Claim C4 as stated fails beyond that bound. With a \<open>Consumed\<close> mark of count
  922337204 the 64-bit product is negative, so a message produced at time 0 is redelivered
  at time 1, although its production time plus the timeout times the count lies about
  292 years later.
\<close>

theorem shouldRedeliver_overflow_counterexample:
  "shouldRedeliver 1 \<lparr>Offset = 7, Key = [], Value = Raw [], ClusteringKey = [],
       Channel = ''c'', ProducedAt = 0\<rparr> \<lparr>Kind = Consumed, DeliveryCount = 922337204\<rparr>
   \<and> \<not> (ProducedAt \<lparr>Offset = 7, Key = [], Value = Raw [], ClusteringKey = [],
       Channel = ''c'', ProducedAt = 0\<rparr>
        + 10000000000 * max 1 (uint (922337204 :: 32 word)) < 1)"
  by (simp add: shouldRedeliver_def inflight_dur_def Add_def Before_def RedeliveryTimeout_def)

section \<open>Properties of the merge wrappers\<close>

text \<open>
  Claim C5 (as amended). Whenever the rocksdb \<open>FullMerge\<close> succeeds, the badger fold
  computes the same value.
\<close>

theorem FullMerge_agrees_with_badger_merge:
  "FullMerge mergeFunc key existing operands = Some v
     \<Longrightarrow> badger_merge mergeFunc existing operands = v"
  unfolding badger_merge_def
  by (induction operands arbitrary: existing)
     (auto simp: badger_fn_def split: prod.splits if_splits)

theorem FullMerge_agrees_with_badger_merge_witness:
  "FullMerge (\<lambda>e v. (e @ v, True)) [107] [1] [[2], [3]] = Some [1, 2, 3]
   \<and> badger_merge (\<lambda>e v. (e @ v, True)) [1] [[2], [3]] = [1, 2, 3]"
  using FullMerge_agrees_with_badger_merge
    [of "\<lambda>e v. (e @ v, True)" "[107]" "[1]" "[[2], [3]]" "[1, 2, 3]"]
  by simp

text \<open>
  Claim C5 as stated fails. A merge function that appends the operand and reports not-ok
  on the operand \<open>[0]\<close>: on the operands \<open>[0]\<close>, \<open>[2]\<close> the rocksdb wrapper aborts the
  merge and yields no value, the badger wrapper skips the refused operand and yields
  \<open>[1, 2]\<close>.
\<close>

theorem merge_wrappers_differ_counterexample:
  "FullMerge (\<lambda>e v. (e @ v, v \<noteq> [0])) [107] [1] [[0], [2]] = None
   \<and> badger_merge (\<lambda>e v. (e @ v, v \<noteq> [0])) [1] [[0], [2]] = [1, 2]"
  by (simp add: badger_merge_def badger_fn_def)

section \<open>Properties of registration\<close>

lemma getReceiver_append_new:
  "getReceiver n (rs @ [r]) = (case getReceiver n rs of Some x \<Rightarrow> Some x
      | None \<Rightarrow> if rname r = n then Some r else None)"
  by (induction rs) auto

lemma register_found:
  "getReceiver n (receivers c) = Some r \<Longrightarrow> register n c = (r, c)"
  by (simp add: register_def)

lemma register_keeps:
  "getReceiver n (receivers c) = Some r
     \<Longrightarrow> getReceiver n (receivers (snd (register n' c))) = Some r"
  by (auto simp: register_def Let_def getReceiver_append_new split: option.splits)

lemma register_registers:
  "register n c = (r, c') \<Longrightarrow> getReceiver n (receivers c') = Some r"
  by (auto simp: register_def Let_def getReceiver_append_new split: option.splits if_splits)

lemma register_all_keeps:
  "getReceiver n (receivers c) = Some r
     \<Longrightarrow> getReceiver n (receivers (register_all ns c)) = Some r"
  unfolding register_all_def
  by (induction ns arbitrary: c) (simp_all add: register_keeps)

lemma register_loops:
  "loops (snd (register n c)) = (if receivers c = [] then loops c + 1 else loops c)"
  by (cases "receivers c") (auto simp: register_def Let_def split: option.splits)

text \<open>
  Claim C9. Let a call of \<open>register\<close> with a consumer name return the receiver \<open>r\<close>.
  After any further registrations a call with the same name returns the same receiver,
  hence the same two channels, and leaves the group as it is: no receiver is added and no
  loop is started. The first call starts a loop exactly when the receiver list was empty
  before it.
\<close>

theorem register_idempotent:
  assumes "register consumerName c = (r, c')"
  shows "register consumerName (register_all others c') = (r, register_all others c')
       \<and> Consume consumerName c = ((msgCh r, doneCh r, None), c')
       \<and> Consume consumerName (register_all others c')
           = ((msgCh r, doneCh r, None), register_all others c')
       \<and> loops c' = (if receivers c = [] then loops c + 1 else loops c)"
proof -
  have "getReceiver consumerName (receivers (register_all others c')) = Some r"
    using assms by (intro register_all_keeps register_registers)
  then have "register consumerName (register_all others c') = (r, register_all others c')"
    by (rule register_found)
  moreover have "loops c' = (if receivers c = [] then loops c + 1 else loops c)"
    using register_loops [of consumerName c] assms by simp
  ultimately show ?thesis
    using assms by (simp add: Consume_def)
qed

text \<open>
  The theorem at the empty example group: the first call for \<open>a\<close> makes channels 0 and 1
  and starts the loop; after a registration of \<open>b\<close> a second call for \<open>a\<close> returns
  channels 0 and 1 again, and one loop has been started in all.
\<close>

theorem register_idempotent_witness:
  "register ''a'' example_group
     = (\<lparr>rname = ''a'', msgCh = 0, doneCh = 1\<rparr>,
        example_group\<lparr>receivers := [\<lparr>rname = ''a'', msgCh = 0, doneCh = 1\<rparr>], chans := 2, loops := 1\<rparr>)
   \<and> fst (Consume ''a'' (register_all [''b'']
        (example_group\<lparr>receivers := [\<lparr>rname = ''a'', msgCh = 0, doneCh = 1\<rparr>], chans := 2, loops := 1\<rparr>)))
       = (0, 1, None)
   \<and> loops (snd (Consume ''a'' (register_all [''b'']
        (example_group\<lparr>receivers := [\<lparr>rname = ''a'', msgCh = 0, doneCh = 1\<rparr>], chans := 2, loops := 1\<rparr>))))
       = 1"
proof -
  have h: "register ''a'' example_group
     = (\<lparr>rname = ''a'', msgCh = 0, doneCh = 1\<rparr>,
        example_group\<lparr>receivers := [\<lparr>rname = ''a'', msgCh = 0, doneCh = 1\<rparr>], chans := 2, loops := 1\<rparr>)"
    by (simp add: register_def example_group_def Let_def)
  show ?thesis
    using h register_idempotent [OF h, of "[''b'']"]
    by (simp add: register_all_def register_def example_group_def Let_def)
qed

section \<open>Properties of the badger backend\<close>

text \<open>
  Claim C10. \<open>Delete\<close> and \<open>BatchDelete\<close> leave the store as it was, whatever the key
  or the list of keys, so a \<open>Get\<close> of any key afterwards returns what it returned
  before.
\<close>

theorem badger_Delete_discards:
  "snd (Delete db key) = db
   \<and> snd (BatchDelete db keys) = db
   \<and> Get (snd (Delete db key)) k = Get db k
   \<and> Get (snd (BatchDelete db keys)) k = Get db k"
  by (simp add: Delete_def BatchDelete_def txn_Discard_def Let_def split: sum.splits)

text \<open>
  By contrast a committed write is seen by \<open>Get\<close>, and the deletions do reach the
  transaction that is then discarded.
\<close>

lemma BatchPut_writes:
  "key \<noteq> [] \<Longrightarrow> Get (snd (BatchPut db [(key, v)])) key = (Some v, None)"
  by (simp add: BatchPut_def NewTransaction_def txn_Set_def txn_modify_def txn_Commit_def Get_def)

lemma delete_keys_buffers:
  "txn_update txn \<Longrightarrow> [] \<notin> set keys
    \<Longrightarrow> delete_keys txn keys = Inr (txn\<lparr>txn_pending := txn_pending txn @ map (\<lambda>k. (k, None)) keys\<rparr>)"
  by (induction keys arbitrary: txn) (auto simp: txn_Delete_def txn_modify_def)

section \<open>Properties of the receiver selection\<close>





text \<open>In the earlier version of the loop a retry does leave \<open>i\<close> as it is.\<close>

lemma selectreceiver_old_keeps_i:
  "case selectreceiver_old done i rs of
     Sent i' rs' r \<Rightarrow> i' = i
   | BreakLoop i' rs' \<Rightarrow> i' = i
   | Fallthrough i' rs' \<Rightarrow> i' = i
   | SelectPanic \<Rightarrow> True"
proof (induction "done" i rs rule: selectreceiver_old.induct)
  case (1 "done" i rs)
  show ?case
  proof (cases "length rs = 0 \<or> rname (rs ! (i mod length rs)) \<notin> set done")
    case True
    then show ?thesis
      by (auto simp: selectreceiver_old.simps [of "done" i rs] Let_def)
  next
    case False
    then show ?thesis
      using "1.IH"
      by (auto simp: selectreceiver_old.simps [of "done" i rs] Let_def split: option.splits)
  qed
qed

section \<open>Properties of the dispatch loop\<close>

text \<open>
  Claim C2, evaluated. One receiver \<open>a\<close>; the message of offset 1 is sent to it; when the
  message of offset 2 arrives the done channel of \<open>a\<close> fires, \<open>a\<close> is removed and the
  loop is left. The only message handed to a receiver is the one of offset 1, and the
  offset marked as consumed is 2.
\<close>

theorem consumeLoop_marks_undispatched:
  "d_sent (dispatch [(example_message 1, []), (example_message 2, [''a''])]
             (dispatch_start [example_receiver ''a'' 0]))
     = [(''a'', example_message 1)]
   \<and> mark_on_exit 0 (dispatch [(example_message 1, []), (example_message 2, [''a''])]
             (dispatch_start [example_receiver ''a'' 0]))
     = Some 2"
  by (simp add: dispatch_start_def example_receiver_def example_message_def
      selectreceiver.simps Let_def mark_on_exit_def)

text \<open>
  When no done channel fires, all messages are sent in order and the offset marked is that
  of the last message sent.
\<close>

lemma selectreceiver_no_detach:
  "rs \<noteq> [] \<Longrightarrow> selectreceiver [] i rs = Sent (Suc i) rs (rs ! (Suc i mod length rs))"
  by (simp add: selectreceiver.simps [of "[]" i rs])

lemma dispatch_no_detach:
  assumes "d_receivers st \<noteq> []" and "\<not> d_panic st" and "msgs \<noteq> []"
  shows "mark_on_exit lastConsumed (dispatch (map (\<lambda>m. (m, [])) msgs) st)
       = (if Offset (last msgs) \<noteq> lastConsumed then Some (Offset (last msgs)) else None)
     \<and> map snd (d_sent (dispatch (map (\<lambda>m. (m, [])) msgs) st)) = map snd (d_sent st) @ msgs"
  using assms
proof (induction msgs arbitrary: st)
  case Nil
  then show ?case by simp
next
  case (Cons m msgs)
  let ?st = "st\<lparr>d_i := Suc (d_i st), d_receivers := d_receivers st, d_m := Some m,
       d_sent := d_sent st @ [(rname (d_receivers st ! (Suc (d_i st) mod length (d_receivers st))), m)]\<rparr>"
  have step: "dispatch (map (\<lambda>m. (m, [])) (m # msgs)) st = dispatch (map (\<lambda>m. (m, [])) msgs) ?st"
    using Cons.prems(1) by (simp add: selectreceiver_no_detach)
  show ?case
  proof (cases "msgs = []")
    case True
    with step Cons.prems show ?thesis
      by (simp add: mark_on_exit_def)
  next
    case False
    with Cons.IH [of ?st] Cons.prems step show ?thesis
      by simp
  qed
qed

section \<open>Properties of the recovery scan\<close>

text \<open>
  Claim C1, evaluated. A message whose stored mark is \<open>Consumed\<close> with count 1 and whose
  deadline has passed is redelivered. The state written is \<open>Consumed\<close> with count 2,
  below the maximum of 5, and yet the message is produced on the dead-letter channel of
  its topic and partition. The same message is produced there again when its mark has
  count 4 and the state written is \<open>Acknowledged\<close> with count 5.
\<close>

theorem recovery_dead_letters_below_max:
  "(case recover_callback
       (example_env 10000000001 (Some (example_mark \<lparr>Kind = Consumed, DeliveryCount = 1\<rparr>)))
       example_group 0 scan_start (example_message 7) of
     (st, effs, e) \<Rightarrow>
        written_states effs = [\<lparr>Kind = Consumed, DeliveryCount = 2\<rparr>]
      \<and> produced_on ''T'' ''P0'' DeathLetterChannel effs
          = [(example_message 7)\<lparr>Channel := DeathLetterChannel\<rparr>]
      \<and> e = None)
   \<and> uint (2 :: 32 word) < MaxRedeliveryCount
   \<and> (case recover_callback
       (example_env 40000000001 (Some (example_mark \<lparr>Kind = Consumed, DeliveryCount = 4\<rparr>)))
       example_group 0 scan_start (example_message 7) of
     (st, effs, e) \<Rightarrow>
        written_states effs = [\<lparr>Kind = Acknowledged, DeliveryCount = 5\<rparr>]
      \<and> produced_on ''T'' ''P0'' DeathLetterChannel effs
          = [(example_message 7)\<lparr>Channel := DeathLetterChannel\<rparr>]
      \<and> e = None)"
  by (simp add: example_defs recover_callback_def decode_state_def advance_commit_def
      shouldRedeliver_def inflight_dur_def Add_def Before_def RedeliveryTimeout_def
      update_mark_def bump_state_def MaxRedeliveryCount_def ConsumerOffsetTopicName_def
      DeathLetterChannel_def List.map_filter_def Let_def)

text \<open>
  In general the dead-letter produce is part of every update of a state that is not
  \<open>Unknown\<close>.
\<close>

lemma update_mark_dead_letters:
  assumes "Kind s \<noteq> Unknown" and "markedMsg = Some mm"
  shows "ProduceCall \<lparr>Topic = cg_topic c, Partition = cg_partition c,
            Messages = [m\<lparr>Channel := DeathLetterChannel\<rparr>]\<rparr>
           \<in> set (fst (snd (update_mark env c st m markedMsg s)))"
  using assms by (simp add: update_mark_def Let_def)







lemma bump_state_kind:
  "Kind (bump_state s)
     = (if MaxRedeliveryCount \<le> uint (DeliveryCount s + 1) then Acknowledged else Kind s)"
  by (simp add: bump_state_def Let_def)






section \<open>Properties of the produce path\<close>

lemma assign_offsets_length: "length (assign_offsets n ms) = length ms"
  by (induction ms arbitrary: n) simp_all

lemma assign_offsets_nth:
  "j < length ms \<Longrightarrow> assign_offsets n ms ! j = (ms ! j)\<lparr>Offset := n + j\<rparr>"
  by (induction ms arbitrary: n j) (auto simp: nth_Cons split: nat.splits)

lemma assign_offsets_offsets:
  "map Offset (assign_offsets n ms) = [n ..< n + length ms]"
proof (rule nth_equalityI)
  show "length (map Offset (assign_offsets n ms)) = length [n ..< n + length ms]"
    by (simp add: assign_offsets_length)
next
  fix j
  assume "j < length (map Offset (assign_offsets n ms))"
  then have "j < length ms"
    by (simp add: assign_offsets_length)
  then show "map Offset (assign_offsets n ms) ! j = [n ..< n + length ms] ! j"
    by (simp add: assign_offsets_length assign_offsets_nth)
qed

lemma fold_max_upper: "x \<in> set xs \<Longrightarrow> x \<le> fold max xs (a :: nat)"
proof (induction xs arbitrary: a)
  case Nil
  then show ?case by simp
next
  case (Cons y ys)
  have mono: "b \<le> fold max ys b" for b :: nat
    by (induction ys arbitrary: b) (auto intro: order_trans [OF max.cobounded2])
  show ?case
  proof (cases "x = y")
    case True
    then show ?thesis
      using mono [of "max y a"] by simp
  next
    case False
    with Cons show ?thesis by simp
  qed
qed

lemma next_offset_fresh: "m \<in> set (plog p) \<Longrightarrow> Offset m < next_offset p"
  using fold_max_upper [of "Offset m" "map Offset (plog p)" 0]
  by (simp add: next_offset_def less_Suc_eq_le)

lemma BatchPutMessages_Inr:
  assumes "BatchPutMessages p msgs = Inr (p', ms)"
  shows "length ms = length msgs"
    and "map Offset ms = [next_offset p ..< next_offset p + length msgs]"
    and "\<forall>j < length ms. ms ! j = (msgs ! j)\<lparr>Offset := map Offset ms ! j\<rparr>"
    and "plog p' = plog p @ ms"
  using assms
  by (auto simp: BatchPutMessages_def Let_def assign_offsets_length assign_offsets_nth
      assign_offsets_offsets split: option.splits)

lemma BatchPutMessages_Inl:
  "BatchPutMessages p msgs = Inl e \<Longrightarrow> \<exists>s. e = ErrExternal s"
  by (auto simp: BatchPutMessages_def Let_def split: option.splits)

lemma resolve_partition_Inl:
  "resolve_partition rnd t req = Inl e \<Longrightarrow> e \<noteq> ErrNoMessageToProduce"
  by (auto simp: resolve_partition_def split: if_splits option.splits)

lemma remote_response_Inl:
  "remote_response x \<noteq> Inl ErrNoMessageToProduce"
  by (auto simp: remote_response_def split: sum.splits)

lemma Produce_no_messages_iff:
  "fst (Produce forward rnd b req) = Inl ErrNoMessageToProduce \<longleftrightarrow> Messages req = []"
proof
  assume "Messages req = []"
  then show "fst (Produce forward rnd b req) = Inl ErrNoMessageToProduce"
    by (simp add: Produce_def)
next
  assume a: "fst (Produce forward rnd b req) = Inl ErrNoMessageToProduce"
  show "Messages req = []"
  proof (rule ccontr)
    assume "Messages req \<noteq> []"
    with a show False
      by (auto simp: Produce_def Let_def remote_response_Inl
          dest: resolve_partition_Inl BatchPutMessages_Inl
          split: option.splits sum.splits if_splits prod.splits)
  qed
qed

text \<open>
  Claim C6. \<open>Produce\<close> fails with the no-messages error exactly when the request has no
  messages. With messages, it fails with the topic-not-found error when the topic is not
  known, with an unknown-partition error when the partition named is not one of the
  topic, and with the no-leader error when the partition has no leader. On the leader
  itself a successful batch append returns the offsets assigned to the messages, one per
  message and in the order of the request; a failed append returns its error and no
  offsets, and leaves the broker as it was.
\<close>

theorem Produce_outcomes:
  "(fst (Produce forward rnd b req) = Inl ErrNoMessageToProduce \<longleftrightarrow> Messages req = [])
   \<and> (Messages req \<noteq> [] \<and> getTopic b (Topic req) = None
        \<longrightarrow> fst (Produce forward rnd b req) = Inl ErrTopicNotFound)
   \<and> (Messages req \<noteq> [] \<and> getTopic b (Topic req) = Some t \<and> Partition req \<noteq> []
        \<and> GetPartition (partitions t) (Partition req) = None
        \<longrightarrow> fst (Produce forward rnd b req) = Inl (ErrUnknownPartition (Partition req)))
   \<and> (Messages req \<noteq> [] \<and> getTopic b (Topic req) = Some t
        \<and> resolve_partition rnd t req = Inr k
        \<and> getPartitionLeader b (Topic req) (Id_p (partitions t ! k)) = None
        \<longrightarrow> fst (Produce forward rnd b req) = Inl ErrNoLeaderFound)
   \<and> (Messages req \<noteq> [] \<and> getTopic b (Topic req) = Some t
        \<and> resolve_partition rnd t req = Inr k
        \<and> getPartitionLeader b (Topic req) (Id_p (partitions t ! k)) = Some leader
        \<and> node_Name leader = b_Name b
        \<longrightarrow> (case BatchPutMessages (partitions t ! k) (Messages req) of
               Inl e \<Rightarrow> Produce forward rnd b req = (Inl e, b, [])
             | Inr (p', ms) \<Rightarrow>
                 fst (Produce forward rnd b req) = Inr (map Offset ms)
                 \<and> length ms = length (Messages req)
                 \<and> (\<forall>j < length ms. ms ! j = (Messages req ! j)\<lparr>Offset := map Offset ms ! j\<rparr>)))"
proof (intro conjI impI)
  show "fst (Produce forward rnd b req) = Inl ErrNoMessageToProduce \<longleftrightarrow> Messages req = []"
    by (rule Produce_no_messages_iff)
next
  assume "Messages req \<noteq> [] \<and> getTopic b (Topic req) = None"
  then show "fst (Produce forward rnd b req) = Inl ErrTopicNotFound"
    by (simp add: Produce_def)
next
  assume "Messages req \<noteq> [] \<and> getTopic b (Topic req) = Some t \<and> Partition req \<noteq> []
        \<and> GetPartition (partitions t) (Partition req) = None"
  then show "fst (Produce forward rnd b req) = Inl (ErrUnknownPartition (Partition req))"
    by (simp add: Produce_def resolve_partition_def)
next
  assume "Messages req \<noteq> [] \<and> getTopic b (Topic req) = Some t
        \<and> resolve_partition rnd t req = Inr k
        \<and> getPartitionLeader b (Topic req) (Id_p (partitions t ! k)) = None"
  then show "fst (Produce forward rnd b req) = Inl ErrNoLeaderFound"
    by (simp add: Produce_def)
next
  assume a: "Messages req \<noteq> [] \<and> getTopic b (Topic req) = Some t
        \<and> resolve_partition rnd t req = Inr k
        \<and> getPartitionLeader b (Topic req) (Id_p (partitions t ! k)) = Some leader
        \<and> node_Name leader = b_Name b"
  show "case BatchPutMessages (partitions t ! k) (Messages req) of
               Inl e \<Rightarrow> Produce forward rnd b req = (Inl e, b, [])
             | Inr (p', ms) \<Rightarrow>
                 fst (Produce forward rnd b req) = Inr (map Offset ms)
                 \<and> length ms = length (Messages req)
                 \<and> (\<forall>j < length ms. ms ! j = (Messages req ! j)\<lparr>Offset := map Offset ms ! j\<rparr>)"
  proof (cases "BatchPutMessages (partitions t ! k) (Messages req)")
    case (Inl e)
    with a show ?thesis
      by (simp add: Produce_def)
  next
    case (Inr pm)
    obtain p' ms where pm: "pm = (p', ms)"
      by (cases pm)
    with Inr a BatchPutMessages_Inr(1,3) [of "partitions t ! k" "Messages req" p' ms]
    show ?thesis
      by (simp add: Produce_def)
  qed
qed

lemmas produce_eval = example_defs Produce_def getTopic_def getPartitionLeader_def
  resolve_partition_def BatchPutMessages_def next_offset_def remote_response_def
  ChooseRandomPartition_def Let_def

text \<open>
  The theorem at the example broker: an empty request, an unknown topic, an unknown
  partition, a partition without leader, two messages appended by the leader to an empty
  log, and the same append refused by the storage.
\<close>

theorem Produce_outcomes_witness:
  "fst (Produce (\<lambda>l r. Inr []) 0 (example_broker (Some ''n1'') None)
          (example_request ''T'' ''P0'' [])) = Inl ErrNoMessageToProduce
   \<and> fst (Produce (\<lambda>l r. Inr []) 0 (example_broker (Some ''n1'') None)
          (example_request ''X'' ''P0'' [example_message 0])) = Inl ErrTopicNotFound
   \<and> fst (Produce (\<lambda>l r. Inr []) 0 (example_broker (Some ''n1'') None)
          (example_request ''T'' ''P9'' [example_message 0])) = Inl (ErrUnknownPartition ''P9'')
   \<and> fst (Produce (\<lambda>l r. Inr []) 0 (example_broker None None)
          (example_request ''T'' ''P0'' [example_message 0])) = Inl ErrNoLeaderFound
   \<and> fst (Produce (\<lambda>l r. Inr []) 0 (example_broker (Some ''n1'') None)
          (example_request ''T'' ''P0'' [example_message 0, example_message 0])) = Inr [1, 2]
   \<and> Produce (\<lambda>l r. Inr []) 0 (example_broker (Some ''n1'') (Some ''disk full''))
          (example_request ''T'' ''P0'' [example_message 0, example_message 0])
        = (Inl (ErrExternal ''disk full''), example_broker (Some ''n1'') (Some ''disk full''), [])"
  using
    Produce_outcomes [of "\<lambda>l r. Inr []" 0 "example_broker (Some ''n1'') None"
      "example_request ''T'' ''P0'' []"]
    Produce_outcomes [of "\<lambda>l r. Inr []" 0 "example_broker (Some ''n1'') None"
      "example_request ''X'' ''P0'' [example_message 0]"]
    Produce_outcomes [of "\<lambda>l r. Inr []" 0 "example_broker (Some ''n1'') None"
      "example_request ''T'' ''P9'' [example_message 0]"
      "\<lparr>partitions = [\<lparr>Id_p = ''P0'', plog = [], fault = None\<rparr>]\<rparr>"]
    Produce_outcomes [of "\<lambda>l r. Inr []" 0 "example_broker None None"
      "example_request ''T'' ''P0'' [example_message 0]"
      "\<lparr>partitions = [\<lparr>Id_p = ''P0'', plog = [], fault = None\<rparr>]\<rparr>" 0]
    Produce_outcomes [of "\<lambda>l r. Inr []" 0 "example_broker (Some ''n1'') None"
      "example_request ''T'' ''P0'' [example_message 0, example_message 0]"
      "\<lparr>partitions = [\<lparr>Id_p = ''P0'', plog = [], fault = None\<rparr>]\<rparr>" 0
      "\<lparr>node_Name = ''n1''\<rparr>"]
    Produce_outcomes [of "\<lambda>l r. Inr []" 0 "example_broker (Some ''n1'') (Some ''disk full'')"
      "example_request ''T'' ''P0'' [example_message 0, example_message 0]"
      "\<lparr>partitions = [\<lparr>Id_p = ''P0'', plog = [], fault = Some ''disk full''\<rparr>]\<rparr>" 0
      "\<lparr>node_Name = ''n1''\<rparr>"]
  by (simp add: produce_eval)



end
